theory Spec2Isabelle
  imports Main "HOL-Library.Char_ord" "HOL-Library.List_Lexorder"
begin

section \<open>Python strings\<close>

text \<open>
  A Python \<open>str\<close> is the list of its code points, taken below 256 here, so that a
  \<^typ>\<open>char\<close> is one code point. With \<open>Char_ord\<close> and \<open>List_Lexorder\<close> the order on
  \<^typ>\<open>string\<close> is the one Python's \<open>sorted\<close> uses: code point by code point, a proper
  prefix first.
\<close>

fun startswith :: "string \<Rightarrow> string \<Rightarrow> bool" where
  "startswith s [] = True"
| "startswith [] (p # ps) = False"
| "startswith (c # cs) (p # ps) = (c = p \<and> startswith cs ps)"

text \<open>\<open>py_in sub s\<close> is Python's \<open>sub in s\<close> on strings.\<close>

fun py_in :: "string \<Rightarrow> string \<Rightarrow> bool" where
  "py_in sub [] = (sub = [])"
| "py_in sub (c # cs) = (startswith (c # cs) sub \<or> py_in sub cs)"

text \<open>\<open>host.lstrip('.')\<close> removes every leading dot.\<close>

definition lstrip_dot :: "string \<Rightarrow> string" where
  "lstrip_dot host = dropWhile (\<lambda>c. c = CHR ''.'') host"

text \<open>\<open>str.lower()\<close> on code points below 256: the ASCII capitals and the capitals
  of the Latin-1 block (U+00C0 to U+00DE without the multiplication sign U+00D7).\<close>

definition lower_char :: "char \<Rightarrow> char" where
  "lower_char c =
     (let n = (of_char c :: nat)
      in if (65 \<le> n \<and> n \<le> 90) \<or> (192 \<le> n \<and> n \<le> 222 \<and> n \<noteq> 215)
         then char_of (n + 32) else c)"

definition lower :: "string \<Rightarrow> string" where
  "lower s = map lower_char s"

text \<open>\<open>str(n)\<close> for a natural number, as the f-strings render a count.\<close>

function str_of_nat :: "nat \<Rightarrow> string" where
  "str_of_nat n =
     (if n < 10 then [char_of (48 + n)]
      else str_of_nat (n div 10) @ [char_of (48 + n mod 10)])"
  by pat_completeness auto
termination
  by (relation "measure id") auto

declare str_of_nat.simps [simp del]

text \<open>The number of bytes of the UTF-8 encoding: two for a code point from 128 on.\<close>

definition utf8_length :: "string \<Rightarrow> nat" where
  "utf8_length s = length s + length (filter (\<lambda>c. 128 \<le> (of_char c :: nat)) s)"

text \<open>\<open>f"{s:<n}"\<close>: left-justified in a field of width \<open>n\<close>.\<close>

definition ljust :: "nat \<Rightarrow> string \<Rightarrow> string" where
  "ljust n s = s @ replicate (n - length s) CHR '' ''"

section \<open>Exceptions\<close>

text \<open>
  The classes of the exceptions the engine raises or meets: the plain \<open>Exception\<close> and
  \<open>FileNotFoundError\<close> it raises itself, \<open>sqlite3.OperationalError\<close>, which
  \<open>get_unique_sites\<close> handles apart, and the other errors of \<open>sqlite3\<close> and of the
  file system, which only \<open>except Exception\<close> catches. \<open>msg\<close> is \<open>str(e)\<close>.
\<close>

datatype exn_class = Exception | FileNotFoundError | OperationalError | DatabaseError | OSError

datatype exn = PyExn (cls: exn_class) (msg: string)

section \<open>The cookie store and SQLite's \<open>LIKE\<close>\<close>

text \<open>
  A row of the \<open>cookies\<close> table: its \<open>host_key\<close> (\<open>None\<close> for SQL \<open>NULL\<close>) and the
  remaining columns, which the engine never reads.
\<close>

record cookie_row =
  host_key :: "string option"
  other_columns :: string

text \<open>
  What \<open>sqlite3\<close> finds in the bytes of a file: \<open>Faulty e\<close> when reading them raises
  \<open>e\<close> (a file that is not a database), otherwise a database whose \<open>cookies\<close> table is
  absent (\<open>None\<close>) or holds the given rows.
\<close>

datatype store = Faulty exn | Database "cookie_row list option"

text \<open>
  A path lies in a directory that does not exist, or holds nothing, or holds a
  directory, or holds a file. The flag of a file says whether another process (the
  running browser) holds SQLite's lock on it. The lock belongs to the file, not to its
  bytes: a copy of the file has the same content and no lock.
\<close>

datatype node = NoParent | NoFile | IsDir | File bool store

text \<open>
  SQLite's \<open>LIKE\<close> as the \<open>DELETE\<close> statement uses it (no \<open>ESCAPE\<close>, no
  \<open>case_sensitive_like\<close> pragma): \<open>%\<close> matches any run of characters, \<open>_\<close> exactly one,
  and any other character matches itself, where the ASCII letters match in either case.
\<close>

definition sqlite_tolower :: "char \<Rightarrow> char" where
  "sqlite_tolower c =
     (let n = (of_char c :: nat) in if 65 \<le> n \<and> n \<le> 90 then char_of (n + 32) else c)"

fun like :: "string \<Rightarrow> string \<Rightarrow> bool" where
  "like [] [] = True"
| "like [] (c # cs) = False"
| "like (p # ps) [] = (p = CHR ''%'' \<and> like ps [])"
| "like (p # ps) (c # cs) =
     (if p = CHR ''%'' then like ps (c # cs) \<or> like (p # ps) cs
      else (p = CHR ''_'' \<or> sqlite_tolower p = sqlite_tolower c) \<and> like ps cs)"

text \<open>\<open>host_key LIKE ?\<close> on a row: \<open>NULL LIKE ?\<close> is not true.\<close>

definition row_like :: "string \<Rightarrow> cookie_row \<Rightarrow> bool" where
  "row_like pattern r = (case host_key r of None \<Rightarrow> False | Some h \<Rightarrow> like pattern h)"

text \<open>
  SQLite refuses a \<open>LIKE\<close> pattern of more than 50000 bytes. It checks the length when
  it evaluates \<open>LIKE\<close> on a row, so a statement over an empty table does not raise.
\<close>

definition like_pattern_limit :: nat where
  "like_pattern_limit = 50000"

text \<open>
  \<open>sqlite3.connect\<close> opens the file, with the lock that lies on it, and creates an empty
  database where the file is missing; it raises where the directory is missing or the
  path is a directory.
\<close>

fun sqlite_connect :: "node \<Rightarrow> exn + (bool \<times> store)" where
  "sqlite_connect NoParent = Inl (PyExn OperationalError ''unable to open database file'')"
| "sqlite_connect NoFile = Inr (False, Database None)"
| "sqlite_connect IsDir = Inl (PyExn OperationalError ''unable to open database file'')"
| "sqlite_connect (File locked db) = Inr (locked, db)"

text \<open>
  \<open>cursor.execute("DELETE FROM cookies WHERE host_key LIKE ?", (pattern,))\<close> on the
  file itself, with the \<open>rowcount\<close> it leaves. The statement raises when another process
  holds the lock, when the file is no database, when the table is missing and when the
  pattern is too long for a table that has rows.
\<close>

definition execute_delete :: "string \<Rightarrow> bool \<Rightarrow> store \<Rightarrow> exn + (nat \<times> store)" where
  "execute_delete pattern locked db =
     (if locked then Inl (PyExn OperationalError ''database is locked'')
      else case db of
             Faulty e \<Rightarrow> Inl e
           | Database None \<Rightarrow> Inl (PyExn OperationalError ''no such table: cookies'')
           | Database (Some rows) \<Rightarrow>
               if like_pattern_limit < utf8_length pattern \<and> rows \<noteq> []
               then Inl (PyExn OperationalError ''LIKE or GLOB pattern too complex'')
               else Inr (length (filter (row_like pattern) rows),
                         Database (Some (filter (\<lambda>r. \<not> row_like pattern r) rows))))"

section \<open>The profile, the storage roots and the log\<close>

type_synonym path = "string list"

datatype root =
  LOCAL_STORAGE_PATH | SESSION_STORAGE_PATH | INDEXEDDB_PATH | CACHESTORAGE_PATH
  | SCRIPTCACHE_PATH

text \<open>
  A child of a storage root. \<open>removable\<close> says whether the file system lets it go:
  \<open>unlink\<close> raises on a file that is not removable, and
  \<open>shutil.rmtree(item, ignore_errors=True)\<close> leaves such a directory in place without
  raising.
\<close>

record item =
  item_name :: string
  item_is_dir :: bool
  removable :: bool

text \<open>A storage root is absent, or exists and is not a directory, or is a directory
  that cannot be listed (\<open>iterdir\<close> raises), or is a directory with its children.\<close>

datatype root_state = Absent | NotDir | Unlistable | Dir "item list"

record log_entry =
  le_site :: string
  le_type :: string
  le_status :: string
  le_details :: string

record backup =
  copied :: "string list"
  manifest :: "string list option"

datatype io_op = Mkdir | Copy string | WriteManifest

text \<open>
  The state the engine works on: the home directory, the module global \<open>COOKIES_DB\<close>,
  the files at the cookie-store paths, the five storage roots, the number of temporary
  files the program has left behind, the session log (with whether its file can be
  written), the backup directories under \<open>LOG_DIR\<close>, the clock (in the two formats the
  backup uses) and the file operations of the backup that fail. What the program prints
  on its standard output is not part of the state.
\<close>

record world =
  home :: path
  COOKIES_DB :: path
  cookie_files :: "path \<Rightarrow> node"
  storage :: "root \<Rightarrow> root_state"
  temp_files :: nat
  log_writable :: bool
  log_file :: "log_entry list"
  backups :: "string \<rightharpoonup> backup"
  clock_name :: string
  clock_text :: string
  io_fails :: "io_op \<Rightarrow> bool"

definition CHROME_PROFILE :: "world \<Rightarrow> path" where
  "CHROME_PROFILE w =
     home w @ [''AppData'', ''Local'', ''Google'', ''Chrome'', ''User Data'', ''Default'']"

text \<open>The value \<open>COOKIES_DB\<close> has when the module is loaded.\<close>

definition initial_COOKIES_DB :: "world \<Rightarrow> path" where
  "initial_COOKIES_DB w = CHROME_PROFILE w @ [''Network'', ''Cookies'']"

text \<open>\<open>str(path)\<close> on Windows, where the program runs.\<close>

fun path_str :: "path \<Rightarrow> string" where
  "path_str [] = []"
| "path_str [c] = c"
| "path_str (c # d # cs) = c @ [CHR 0x5C] @ path_str (d # cs)"

text \<open>\<open>path.exists()\<close>: something is there, a file or a directory.\<close>

definition exists_file :: "world \<Rightarrow> path \<Rightarrow> bool" where
  "exists_file w p =
     (case cookie_files w p of File locked db \<Rightarrow> True | IsDir \<Rightarrow> True | _ \<Rightarrow> False)"

text \<open>
  \<open>log_deletion\<close> appends one line to the log file, rendered from the clock and the
  four fields; when the file cannot be written it prints a warning and returns.
\<close>

definition log_line :: "string \<Rightarrow> log_entry \<Rightarrow> string" where
  "log_line timestamp e =
     ''['' @ timestamp @ ''] '' @ ljust 15 (le_type e) @ '' '' @ ljust 40 (le_site e) @ '' ''
       @ ljust 10 (le_status e) @ '' '' @ le_details e @ [CHR 0x0A]"

definition log_deletion :: "string \<Rightarrow> string \<Rightarrow> string \<Rightarrow> string \<Rightarrow> world \<Rightarrow> world" where
  "log_deletion site deletion_type status details w =
     (if log_writable w
      then w\<lparr>log_file := log_file w @
             [\<lparr>le_site = site, le_type = deletion_type, le_status = status,
               le_details = details\<rparr>]\<rparr>
      else w)"

section \<open>Cookie deletion\<close>

definition patterns :: "string \<Rightarrow> string list" where
  "patterns site =
     [site, ''.'' @ site, ''www.'' @ site, ''m.'' @ site, ''mobile.'' @ site,
      ''api.'' @ site, ''%.'' @ site, ''%.'' @ site @ ''.'', site @ ''.'']"

text \<open>The loop over the patterns: each \<open>DELETE\<close> runs on what the earlier ones left,
  and the first exception ends the loop.\<close>

fun delete_patterns ::
  "string list \<Rightarrow> bool \<Rightarrow> store \<Rightarrow> nat \<Rightarrow> exn + (nat \<times> store)" where
  "delete_patterns [] locked db deleted_count = Inr (deleted_count, db)"
| "delete_patterns (pattern # ps) locked db deleted_count =
     (case execute_delete pattern locked db of
        Inl e \<Rightarrow> Inl e
      | Inr (rowcount, db') \<Rightarrow> delete_patterns ps locked db' (deleted_count + rowcount))"

text \<open>
  The body of the \<open>try\<close>: the deleted count and the committed store, or the exception
  with the store as \<open>connect\<close> left it (nothing is committed).
\<close>

definition cookies_try :: "string \<Rightarrow> node \<Rightarrow> (exn \<times> node) + (nat \<times> node)" where
  "cookies_try site f =
     (case sqlite_connect f of
        Inl e \<Rightarrow> Inl (e, f)
      | Inr (locked, db) \<Rightarrow>
          (case delete_patterns (patterns site) locked db 0 of
             Inl e \<Rightarrow> Inl (e, File locked db)
           | Inr (deleted_count, db') \<Rightarrow> Inr (deleted_count, File locked db')))"

definition delete_cookies_for_site :: "string \<Rightarrow> world \<Rightarrow> nat \<times> world" where
  "delete_cookies_for_site site w =
     (case cookies_try site (cookie_files w (COOKIES_DB w)) of
        Inr (deleted_count, f) \<Rightarrow>
          (deleted_count,
           log_deletion site ''COOKIES'' (if deleted_count > 0 then ''SUCCESS'' else ''NONE'')
             (str_of_nat deleted_count @ '' deleted'')
             (w\<lparr>cookie_files := (cookie_files w)(COOKIES_DB w := f)\<rparr>))
      | Inl (e, f) \<Rightarrow>
          (0, log_deletion site ''COOKIES'' ''ERROR'' (msg e)
                (w\<lparr>cookie_files := (cookie_files w)(COOKIES_DB w := f)\<rparr>)))"

section \<open>The inventory scan\<close>

text \<open>The fallback candidates, in the order the scan probes them.\<close>

definition default_paths :: "world \<Rightarrow> path list" where
  "default_paths w =
     [CHROME_PROFILE w @ [''Cookies''],
      CHROME_PROFILE w @ [''Network'', ''Cookies''],
      home w @ [''AppData'', ''Local'', ''Google'', ''Chrome'', ''User Data'', ''Default'',
                ''Cookies'']]"

text \<open>The \<open>for\<close> loop with its \<open>break\<close>; \<open>None\<close> is the loop's \<open>else\<close>.\<close>

fun probe :: "world \<Rightarrow> path list \<Rightarrow> path option" where
  "probe w [] = None"
| "probe w (p # ps) = (if exists_file w p then Some p else probe w ps)"

definition not_found_msg :: string where
  "not_found_msg =
     ''Cookies DB not found'' @ [CHR 0x0A] @ ''Ensure Chrome is closed and path is correct.''"

definition locate_cookies_db :: "world \<Rightarrow> exn + world" where
  "locate_cookies_db w =
     (if \<not> exists_file w (COOKIES_DB w) then
        (case probe w (default_paths w) of
           Some p \<Rightarrow> Inr (w\<lparr>COOKIES_DB := p\<rparr>)
         | None \<Rightarrow> Inl (PyExn FileNotFoundError not_found_msg))
      else Inr w)"

text \<open>
  \<open>SELECT DISTINCT host_key FROM cookies WHERE host_key IS NOT NULL AND host_key != ''\<close>.
  SQLite fixes no order for the rows; the scan sorts what it collects.
\<close>

definition select_host_keys :: "cookie_row list \<Rightarrow> string list" where
  "select_host_keys rows = remdups (filter (\<lambda>h. h \<noteq> []) (List.map_filter host_key rows))"

text \<open>The loop over the fetched rows, with the list \<open>sites\<close> it builds.\<close>

fun collect_sites :: "string list \<Rightarrow> string list \<Rightarrow> string list" where
  "collect_sites [] sites = sites"
| "collect_sites (host # rows) sites =
     (if host \<noteq> [] then
        (let host' = lstrip_dot host
         in if host' \<noteq> [] \<and> host' \<notin> set sites then collect_sites rows (sites @ [host'])
            else collect_sites rows sites)
      else collect_sites rows sites)"

text \<open>
  \<open>shutil.copy2\<close> reads the bytes of the file: the copy has the content of the store and
  none of its locks. It raises on a directory and on a missing file. (The text of an
  error of the operating system is given without the path it ends with.)
\<close>

fun copy2 :: "node \<Rightarrow> exn + store" where
  "copy2 (File locked db) = Inr db"
| "copy2 IsDir = Inl (PyExn OSError ''[Errno 13] Permission denied'')"
| "copy2 NoFile = Inl (PyExn FileNotFoundError ''[Errno 2] No such file or directory'')"
| "copy2 NoParent = Inl (PyExn FileNotFoundError ''[Errno 2] No such file or directory'')"

text \<open>
  The body of the \<open>try\<close>. The temporary file exists from \<open>NamedTemporaryFile\<close> on, and
  \<open>sqlite3\<close> reads the copy in it. Only the branch of the missing table and the normal
  end reach an \<open>os.unlink\<close>.
\<close>

definition read_sites :: "world \<Rightarrow> (exn + string list) \<times> world" where
  "read_sites w =
     (let w1 = w\<lparr>temp_files := temp_files w + 1\<rparr>
      in case copy2 (cookie_files w (COOKIES_DB w)) of
           Inl e \<Rightarrow> (Inl e, w1)
         | Inr (Faulty e) \<Rightarrow> (Inl e, w1)
         | Inr (Database None) \<Rightarrow>
             (Inl (PyExn Exception ''Cookies table not found in database''),
              w1\<lparr>temp_files := temp_files w1 - 1\<rparr>)
         | Inr (Database (Some rows)) \<Rightarrow>
             (Inr (sort (collect_sites (select_host_keys rows) [])),
              w1\<lparr>temp_files := temp_files w1 - 1\<rparr>))"

definition locked_msg :: string where
  "locked_msg = ''Chrome database is locked. Please close Chrome completely.''"

text \<open>The two \<open>except\<close> clauses: what the scan raises for an exception of its body.\<close>

definition scan_error :: "exn \<Rightarrow> exn" where
  "scan_error e =
     (if cls e = OperationalError then
        (if py_in ''database is locked'' (msg e) then PyExn Exception locked_msg
         else PyExn Exception (''Database error: '' @ msg e))
      else PyExn Exception (''Failed to read cookies: '' @ msg e))"

definition get_unique_sites :: "world \<Rightarrow> (exn + string list) \<times> world" where
  "get_unique_sites w =
     (case locate_cookies_db w of
        Inl e \<Rightarrow> (Inl e, w)
      | Inr w1 \<Rightarrow>
          (case read_sites w1 of
             (Inl e, w2) \<Rightarrow> (Inl (scan_error e), w2)
           | (Inr sites, w2) \<Rightarrow> (Inr sites, w2)))"

section \<open>Storage deletion\<close>

definition storage_paths :: "(root \<times> string) list" where
  "storage_paths =
     [(LOCAL_STORAGE_PATH, ''Local Storage''),
      (SESSION_STORAGE_PATH, ''Session Storage''),
      (INDEXEDDB_PATH, ''IndexedDB''),
      (CACHESTORAGE_PATH, ''CacheStorage''),
      (SCRIPTCACHE_PATH, ''ScriptCache'')]"

text \<open>
  The loop over the children of one root: the records it appends and the children it
  leaves. A directory is recorded whether or not \<open>rmtree\<close> removed it; a file is recorded
  only when \<open>unlink\<close> did not raise.
\<close>

fun sweep :: "string \<Rightarrow> string \<Rightarrow> item list \<Rightarrow> string list \<times> item list" where
  "sweep site_lower path_name [] = ([], [])"
| "sweep site_lower path_name (it # its) =
     (let (deleted, left) = sweep site_lower path_name its
      in if py_in site_lower (lower (item_name it)) then
           (if item_is_dir it then
              (if removable it then ((path_name @ '': '' @ item_name it) # deleted, left)
               else ((path_name @ '': '' @ item_name it) # deleted, it # left))
            else
              (if removable it then ((path_name @ '': '' @ item_name it) # deleted, left)
               else (deleted, it # left)))
         else (deleted, it # left))"

fun delete_in_roots ::
  "string \<Rightarrow> (root \<times> string) list \<Rightarrow> (root \<Rightarrow> root_state) \<Rightarrow> string list
     \<Rightarrow> string list \<times> (root \<Rightarrow> root_state)" where
  "delete_in_roots site_lower [] st deleted_items = (deleted_items, st)"
| "delete_in_roots site_lower ((path_obj, path_name) # rest) st deleted_items =
     (case st path_obj of
        Dir items \<Rightarrow>
          (let (deleted, left) = sweep site_lower path_name items
           in delete_in_roots site_lower rest (st(path_obj := Dir left))
                (deleted_items @ deleted))
      | _ \<Rightarrow> delete_in_roots site_lower rest st deleted_items)"

definition delete_site_data_folders :: "string \<Rightarrow> world \<Rightarrow> string list \<times> world" where
  "delete_site_data_folders site w =
     (let (deleted_items, st) = delete_in_roots (lower site) storage_paths (storage w) [];
          w1 = w\<lparr>storage := st\<rparr>
      in (deleted_items,
          if deleted_items \<noteq> []
          then log_deletion site ''STORAGE'' ''SUCCESS''
                 (str_of_nat (length deleted_items) @ '' items'') w1
          else w1))"

section \<open>The backup\<close>

datatype kind = RegularFile | Directory | Nothing

text \<open>\<open>path.name\<close>: the final component.\<close>

definition name_of :: "path \<Rightarrow> string" where
  "name_of p = (if p = [] then [] else last p)"

text \<open>
  The list \<open>files_to_backup\<close>, each entry with its name and what the file system holds
  there. The parent of a storage root that exists is a directory.
\<close>

definition files_to_backup :: "world \<Rightarrow> (string \<times> kind) option list" where
  "files_to_backup w =
     [Some (name_of (COOKIES_DB w),
            case cookie_files w (COOKIES_DB w) of
              File locked db \<Rightarrow> RegularFile
            | IsDir \<Rightarrow> Directory
            | _ \<Rightarrow> Nothing),
      if storage w LOCAL_STORAGE_PATH \<noteq> Absent then Some (''Local Storage'', Directory)
      else None,
      if storage w SESSION_STORAGE_PATH \<noteq> Absent then Some (''Session Storage'', Directory)
      else None]"

text \<open>The copying loop: the names copied so far, and the count unless a copy raised.\<close>

fun copy_files ::
  "(io_op \<Rightarrow> bool) \<Rightarrow> (string \<times> kind) option list \<Rightarrow> string list \<Rightarrow> nat
     \<Rightarrow> string list \<times> nat option" where
  "copy_files fails [] names backup_count = (names, Some backup_count)"
| "copy_files fails (None # rest) names backup_count = copy_files fails rest names backup_count"
| "copy_files fails (Some (name, k) # rest) names backup_count =
     (if k = Nothing then copy_files fails rest names backup_count
      else if fails (Copy name) then (names, None)
      else copy_files fails rest (names @ [name]) (backup_count + 1))"

definition manifest_lines :: "world \<Rightarrow> nat \<Rightarrow> string list" where
  "manifest_lines w backup_count =
     [''Backup created: '' @ clock_text w,
      ''Original profile: '' @ path_str (CHROME_PROFILE w),
      ''Files backed up: '' @ str_of_nat backup_count,
      ''To restore: Copy these files back to their original locations'',
      ''WARNING: Chrome must be completely closed during restoration'']"

text \<open>
  \<open>create_backup\<close> returns the backup directory and the count, or \<open>(None, 0)\<close> when a
  step raised; what the steps before it wrote stays on disk.
\<close>

definition create_backup :: "world \<Rightarrow> (string option \<times> nat) \<times> world" where
  "create_backup w =
     (let backup_dir = ''backup_'' @ clock_name w
      in if io_fails w Mkdir then ((None, 0), w)
         else
           (let old = (case backups w backup_dir of
                         Some b \<Rightarrow> b
                       | None \<Rightarrow> \<lparr>copied = [], manifest = None\<rparr>);
                (names, r) = copy_files (io_fails w) (files_to_backup w) (copied old) 0;
                b1 = old\<lparr>copied := names\<rparr>
            in case r of
                 None \<Rightarrow> ((None, 0), w\<lparr>backups := (backups w)(backup_dir \<mapsto> b1)\<rparr>)
               | Some backup_count \<Rightarrow>
                   (if io_fails w WriteManifest
                    then ((None, 0), w\<lparr>backups := (backups w)(backup_dir \<mapsto> b1)\<rparr>)
                    else ((Some backup_dir, backup_count),
                          w\<lparr>backups := (backups w)(backup_dir \<mapsto>
                               b1\<lparr>manifest := Some (manifest_lines w backup_count)\<rparr>)\<rparr>))))"

section \<open>Notions the properties are stated with\<close>

text \<open>A row matches a site when its \<open>host_key\<close> is \<open>LIKE\<close> one of the site's patterns.\<close>

definition site_match :: "string \<Rightarrow> cookie_row \<Rightarrow> bool" where
  "site_match site r = (\<exists>pattern \<in> set (patterns site). row_like pattern r)"


text \<open>No pattern of the site is longer than SQLite lets a \<open>LIKE\<close> pattern be.\<close>

definition patterns_within_limit :: "string \<Rightarrow> bool" where
  "patterns_within_limit site =
     list_all (\<lambda>pattern. utf8_length pattern \<le> like_pattern_limit) (patterns site)"

text \<open>The exception of a \<open>DELETE\<close> whose pattern is too long.\<close>

definition pattern_too_complex :: exn where
  "pattern_too_complex = PyExn OperationalError ''LIKE or GLOB pattern too complex''"






text \<open>
  The inventory as the specification words it: the distinct non-empty host keys, each
  with a single leading dot stripped, without duplicates, sorted.
\<close>

definition spec_strip_single_dot :: "string \<Rightarrow> string" where
  "spec_strip_single_dot host = (case host of c # cs \<Rightarrow> if c = CHR ''.'' then cs else host | [] \<Rightarrow> [])"

definition spec_list_sites :: "string list \<Rightarrow> string list" where
  "spec_list_sites host_keys =
     sort (remdups (map spec_strip_single_dot (filter (\<lambda>h. h \<noteq> []) host_keys)))"

subsection \<open>Concrete states\<close>

definition row :: "string \<Rightarrow> cookie_row" where
  "row h = \<lparr>host_key = Some h, other_columns = []\<rparr>"

text \<open>A profile with no cookie store, no storage root and an empty, writable log.\<close>

definition empty_world :: world where
  "empty_world =
     \<lparr>home = [''C:'', ''Users'', ''u''],
      COOKIES_DB = [''C:'', ''Users'', ''u'', ''AppData'', ''Local'', ''Google'', ''Chrome'',
                    ''User Data'', ''Default'', ''Network'', ''Cookies''],
      cookie_files = (\<lambda>p. NoFile),
      storage = (\<lambda>r. Absent),
      temp_files = 0,
      log_writable = True,
      log_file = [],
      backups = Map.empty,
      clock_name = ''2025-01-01_00-00-00'',
      clock_text = ''2025-01-01 00:00:00'',
      io_fails = (\<lambda>op. False)\<rparr>"

text \<open>The same profile with a cookie store at \<open>COOKIES_DB\<close> holding the given host keys.\<close>

definition cookie_world :: "string list \<Rightarrow> world" where
  "cookie_world hs =
     empty_world\<lparr>cookie_files :=
       (cookie_files empty_world)(COOKIES_DB empty_world :=
          File False (Database (Some (map row hs))))\<rparr>"


text \<open>A cookie store with the given host keys and an IndexedDB root with the given children.\<close>

definition site_world :: "string list \<Rightarrow> item list \<Rightarrow> world" where
  "site_world hs items =
     (cookie_world hs)\<lparr>storage := (storage (cookie_world hs))(INDEXEDDB_PATH := Dir items)\<rparr>"

definition leveldb_dir :: "string \<Rightarrow> bool \<Rightarrow> item" where
  "leveldb_dir name ok = \<lparr>item_name = name, item_is_dir = True, removable = ok\<rparr>"

text \<open>The cookie store is a file that is not an SQLite database.\<close>

definition corrupt_world :: world where
  "corrupt_world =
     empty_world\<lparr>cookie_files :=
       (cookie_files empty_world)(COOKIES_DB empty_world :=
          File False (Faulty (PyExn DatabaseError ''file is not a database'')))\<rparr>"

text \<open>The cookie store lies at \<open>Default/Cookies\<close>, not at \<open>Default/Network/Cookies\<close>.\<close>

definition old_layout_world :: world where
  "old_layout_world =
     empty_world\<lparr>cookie_files :=
       (cookie_files empty_world)
         ([''C:'', ''Users'', ''u'', ''AppData'', ''Local'', ''Google'', ''Chrome'',
           ''User Data'', ''Default'', ''Cookies''] :=
            File False (Database (Some [row ''.a.com''])))\<rparr>"

section \<open>Properties\<close>

subsection \<open>Cookie deletion on a usable store\<close>

lemma length_filter_split:
  "length (filter P xs) + length (filter Q (filter (\<lambda>x. \<not> P x) xs))
     = length (filter (\<lambda>x. P x \<or> Q x) xs)"
  by (induction xs) auto

lemma filter_filter_not:
  "filter (\<lambda>x. \<not> Q x) (filter (\<lambda>x. \<not> P x) xs) = filter (\<lambda>x. \<not> (P x \<or> Q x)) xs"
  by (induction xs) auto

text \<open>One \<open>DELETE\<close> on an unlocked database with the table: it raises for a pattern that
  is too long, or removes the rows that match.\<close>

lemma execute_delete_Database:
  "execute_delete p False (Database (Some rows)) =
     (if like_pattern_limit < utf8_length p \<and> rows \<noteq> [] then Inl pattern_too_complex
      else Inr (length (filter (row_like p) rows),
                Database (Some (filter (\<lambda>r. \<not> row_like p r) rows))))"
  by (simp add: execute_delete_def pattern_too_complex_def)


lemma delete_patterns_within_limit:
  assumes "list_all (\<lambda>p. utf8_length p \<le> like_pattern_limit) ps"
  shows "delete_patterns ps False (Database (Some rows)) n =
     Inr (n + length (filter (\<lambda>r. \<exists>p \<in> set ps. row_like p r) rows),
          Database (Some (filter (\<lambda>r. \<not> (\<exists>p \<in> set ps. row_like p r)) rows)))"
  using assms
proof (induction ps arbitrary: rows n)
  case Nil
  then show ?case by simp
next
  case (Cons p ps)
  let ?rows = "filter (\<lambda>r. \<not> row_like p r) rows"
  let ?n = "n + length (filter (row_like p) rows)"
  from Cons.prems have p: "\<not> like_pattern_limit < utf8_length p"
    and ps: "list_all (\<lambda>p. utf8_length p \<le> like_pattern_limit) ps"
    by auto
  from p have np: "\<not> (like_pattern_limit < utf8_length p \<and> rows \<noteq> [])"
    by simp
  have e: "execute_delete p False (Database (Some rows)) =
      Inr (length (filter (row_like p) rows), Database (Some ?rows))"
    by (simp only: execute_delete_Database if_not_P [OF np])
  have step: "delete_patterns (p # ps) False (Database (Some rows)) n =
      delete_patterns ps False (Database (Some ?rows)) ?n"
    by (simp add: e)
  have l: "?n + length (filter (\<lambda>r. \<exists>q \<in> set ps. row_like q r) ?rows) =
      n + length (filter (\<lambda>r. \<exists>q \<in> set (p # ps). row_like q r) rows)"
    using length_filter_split [of "row_like p" rows "\<lambda>r. \<exists>q \<in> set ps. row_like q r"]
    by simp
  have f: "filter (\<lambda>r. \<not> (\<exists>q \<in> set ps. row_like q r)) ?rows =
      filter (\<lambda>r. \<not> (\<exists>q \<in> set (p # ps). row_like q r)) rows"
    by (simp add: filter_filter_not)
  from Cons.IH [OF ps, of ?rows ?n] show ?case
    unfolding step l f .
qed


lemma cookies_try_within_limit:
  assumes "patterns_within_limit site"
  shows "cookies_try site (File False (Database (Some rows))) =
     Inr (length (filter (site_match site) rows),
          File False (Database (Some (filter (\<lambda>r. \<not> site_match site r) rows))))"
  using assms unfolding site_match_def
  by (simp add: cookies_try_def patterns_within_limit_def delete_patterns_within_limit)


lemma delete_cookies_Database:
  assumes "cookie_files w (COOKIES_DB w) = File False (Database (Some rows))"
    and "patterns_within_limit site"
  shows "delete_cookies_for_site site w =
     (length (filter (site_match site) rows),
      log_deletion site ''COOKIES''
        (if length (filter (site_match site) rows) > 0 then ''SUCCESS'' else ''NONE'')
        (str_of_nat (length (filter (site_match site) rows)) @ '' deleted'')
        (w\<lparr>cookie_files := (cookie_files w)(COOKIES_DB w :=
             File False (Database (Some (filter (\<lambda>r. \<not> site_match site r) rows))))\<rparr>))"
  by (simp add: delete_cookies_for_site_def assms(1) cookies_try_within_limit [OF assms(2)])


lemma patterns_x_com_within_limit: "patterns_within_limit ''x.com''"
  by (simp add: patterns_within_limit_def patterns_def utf8_length_def like_pattern_limit_def)

text \<open>
  C4. On a cookie store whose table holds the host keys \<open>x.com\<close>, \<open>.x.com\<close>,
  \<open>www.x.com\<close>, \<open>api.x.com\<close> and \<open>evil-x.com\<close>, deleting the site \<open>x.com\<close> returns 4 and
  leaves the row of \<open>evil-x.com\<close> alone: the patterns are anchored.
\<close>

theorem pattern_coverage:
  assumes "cookie_files w (COOKIES_DB w) = File False (Database (Some rows))"
    and "map host_key rows =
           [Some ''x.com'', Some ''.x.com'', Some ''www.x.com'', Some ''api.x.com'',
            Some ''evil-x.com'']"
  shows "fst (delete_cookies_for_site ''x.com'' w) = 4 \<and>
         cookie_files (snd (delete_cookies_for_site ''x.com'' w)) (COOKIES_DB w) =
           File False (Database (Some [rows ! 4]))"
proof -
  from assms(2) obtain r1 r2 r3 r4 r5 where rows: "rows = [r1, r2, r3, r4, r5]"
    and k: "host_key r1 = Some ''x.com''" "host_key r2 = Some ''.x.com''"
      "host_key r3 = Some ''www.x.com''" "host_key r4 = Some ''api.x.com''"
      "host_key r5 = Some ''evil-x.com''"
    by (auto simp: map_eq_Cons_conv)
  have m: "site_match ''x.com'' r1" "site_match ''x.com'' r2" "site_match ''x.com'' r3"
      "site_match ''x.com'' r4" "\<not> site_match ''x.com'' r5"
    using k by (simp_all add: site_match_def patterns_def row_like_def sqlite_tolower_def)
  show ?thesis
    by (simp add: delete_cookies_Database [OF assms(1) patterns_x_com_within_limit] rows m
        log_deletion_def)
qed

theorem pattern_coverage_witness:
  "fst (delete_cookies_for_site ''x.com''
          (cookie_world [''x.com'', ''.x.com'', ''www.x.com'', ''api.x.com'', ''evil-x.com''])) = 4 \<and>
   cookie_files (snd (delete_cookies_for_site ''x.com''
          (cookie_world [''x.com'', ''.x.com'', ''www.x.com'', ''api.x.com'', ''evil-x.com''])))
      (COOKIES_DB empty_world) = File False (Database (Some [row ''evil-x.com'']))"
  using pattern_coverage [of "cookie_world [''x.com'', ''.x.com'', ''www.x.com'', ''api.x.com'', ''evil-x.com'']"
      "map row [''x.com'', ''.x.com'', ''www.x.com'', ''api.x.com'', ''evil-x.com'']"]
  by (simp add: cookie_world_def empty_world_def row_def)







subsection \<open>Cookie deletion on a store that raises\<close>




subsection \<open>Storage deletion and idempotence\<close>

















text \<open>The branch of a directory records the item whether or not \<open>rmtree\<close> removed it
  (the branch of a file records it only when \<open>unlink\<close> succeeded): a directory that
  cannot be removed is recorded again by the next pass.\<close>

lemma unremovable_directory_recorded_again:
  "fst (delete_site_data_folders ''x.com'' (snd (delete_site_data_folders ''x.com''
     (site_world [''x.com''] [leveldb_dir ''https_x.com_0.indexeddb.leveldb'' False])))) =
   [''IndexedDB: https_x.com_0.indexeddb.leveldb'']"
  by code_simp

subsection \<open>Log entries\<close>





subsection \<open>The inventory scan\<close>

lemma set_map_filter_host_key:
  "set (List.map_filter host_key rows) = {h. Some h \<in> host_key ` set rows}"
  by (induction rows) (auto split: option.splits)

lemma set_select_host_keys:
  "set (select_host_keys rows) = {h. Some h \<in> host_key ` set rows \<and> h \<noteq> []}"
  by (auto simp: select_host_keys_def set_map_filter_host_key)

lemma set_collect_sites:
  "set (collect_sites hs sites) = set sites \<union> (lstrip_dot ` {h \<in> set hs. h \<noteq> []} - {[]})"
  by (induction hs sites rule: collect_sites.induct) (auto simp: Let_def)

lemma distinct_collect_sites:
  "distinct sites \<Longrightarrow> distinct (collect_sites hs sites)"
  by (induction hs sites rule: collect_sites.induct) (auto simp: Let_def)

lemma locate_exists:
  "exists_file w (COOKIES_DB w) \<Longrightarrow> locate_cookies_db w = Inr w"
  by (simp add: locate_cookies_db_def)

lemma probe_Some:
  "probe w ps = Some p \<Longrightarrow>
     \<exists>i < length ps. p = ps ! i \<and> exists_file w (ps ! i) \<and> (\<forall>j < i. \<not> exists_file w (ps ! j))"
proof (induction ps)
  case Nil
  then show ?case by simp
next
  case (Cons q ps)
  show ?case
  proof (cases "exists_file w q")
    case True
    with Cons.prems have "p = q" by simp
    with True show ?thesis by (intro exI [of _ 0]) simp
  next
    case False
    with Cons obtain i where i: "i < length ps" "p = ps ! i" "exists_file w (ps ! i)"
      "\<forall>j < i. \<not> exists_file w (ps ! j)"
      by auto
    have "\<forall>j < Suc i. \<not> exists_file w ((q # ps) ! j)"
      using False i(4) by (auto simp: less_Suc_eq_0_disj)
    with i show ?thesis by (intro exI [of _ "Suc i"]) simp
  qed
qed

lemma probe_None: "probe w ps = None \<Longrightarrow> \<forall>p \<in> set ps. \<not> exists_file w p"
  by (induction ps) (auto split: if_splits)

lemma exists_file_COOKIES_DB_update [simp]:
  "exists_file (w\<lparr>COOKIES_DB := p\<rparr>) q = exists_file w q"
  by (simp add: exists_file_def)

lemma get_unique_sites_adopt:
  assumes "\<not> exists_file w (COOKIES_DB w)" and "probe w (default_paths w) = Some p"
  shows "get_unique_sites w = get_unique_sites (w\<lparr>COOKIES_DB := p\<rparr>)"
proof -
  from probe_Some [OF assms(2)] have "exists_file w p" by auto
  then have "locate_cookies_db (w\<lparr>COOKIES_DB := p\<rparr>) = Inr (w\<lparr>COOKIES_DB := p\<rparr>)"
    by (simp add: locate_cookies_db_def)
  moreover have "locate_cookies_db w = Inr (w\<lparr>COOKIES_DB := p\<rparr>)"
    using assms by (simp add: locate_cookies_db_def)
  ultimately show ?thesis by (simp add: get_unique_sites_def)
qed

lemma read_sites_COOKIES_DB [simp]: "COOKIES_DB (snd (read_sites w)) = COOKIES_DB w"
  by (simp add: read_sites_def Let_def split: sum.splits store.splits option.splits)

lemma startswith_set: "startswith s p \<Longrightarrow> set p \<subseteq> set s"
  by (induction s p rule: startswith.induct) auto

lemma py_in_set: "py_in sub s \<Longrightarrow> set sub \<subseteq> set s"
proof (induction s)
  case Nil
  then show ?case by simp
next
  case (Cons c cs)
  from Cons.prems have "startswith (c # cs) sub \<or> py_in sub cs" by simp
  then show ?case
  proof
    assume "startswith (c # cs) sub"
    then show ?thesis by (rule startswith_set)
  next
    assume "py_in sub cs"
    then have "set sub \<subseteq> set cs" by (rule Cons.IH)
    then show ?thesis by auto
  qed
qed

lemma backslash_in_path_str:
  "2 \<le> length p \<Longrightarrow> CHR 0x5C \<in> set (path_str p)"
  by (induction p rule: path_str.induct) auto

lemma not_found_msg_names_no_path:
  assumes "p \<in> set (default_paths w)"
  shows "\<not> py_in (path_str p) not_found_msg"
proof
  assume "py_in (path_str p) not_found_msg"
  then have "set (path_str p) \<subseteq> set not_found_msg" by (rule py_in_set)
  moreover have "CHR 0x5C \<in> set (path_str p)"
    using assms by (intro backslash_in_path_str) (auto simp: default_paths_def CHROME_PROFILE_def)
  ultimately have "CHR 0x5C \<in> set not_found_msg" by blast
  then show False by (simp add: not_found_msg_def)
qed

text \<open>
  C7, as the code has it. When the path in \<open>COOKIES_DB\<close> does not exist, the scan
  probes the fallback candidates in their order and goes on with the first that exists,
  which it stores in \<open>COOKIES_DB\<close>; when none exists it raises \<open>FileNotFoundError\<close>
  with a fixed message, which names none of the candidates.
\<close>

theorem fallback_probe:
  assumes "\<not> exists_file w (COOKIES_DB w)"
  shows "(\<exists>i < length (default_paths w).
            exists_file w (default_paths w ! i) \<and>
            (\<forall>j < i. \<not> exists_file w (default_paths w ! j)) \<and>
            get_unique_sites w = get_unique_sites (w\<lparr>COOKIES_DB := default_paths w ! i\<rparr>) \<and>
            COOKIES_DB (snd (get_unique_sites w)) = default_paths w ! i)
         \<or> ((\<forall>p \<in> set (default_paths w). \<not> exists_file w p) \<and>
             get_unique_sites w = (Inl (PyExn FileNotFoundError not_found_msg), w) \<and>
             (\<forall>p \<in> set (default_paths w). \<not> py_in (path_str p) not_found_msg))"
proof (cases "probe w (default_paths w)")
  case None
  then have "get_unique_sites w = (Inl (PyExn FileNotFoundError not_found_msg), w)"
    using assms by (simp add: get_unique_sites_def locate_cookies_db_def)
  then show ?thesis
    using probe_None [OF None] not_found_msg_names_no_path by blast
next
  case (Some p)
  from probe_Some [OF Some] obtain i where i: "i < length (default_paths w)"
    "p = default_paths w ! i" "exists_file w (default_paths w ! i)"
    "\<forall>j < i. \<not> exists_file w (default_paths w ! j)"
    by blast
  have g: "get_unique_sites w = get_unique_sites (w\<lparr>COOKIES_DB := p\<rparr>)"
    using assms Some by (rule get_unique_sites_adopt)
  have "locate_cookies_db w = Inr (w\<lparr>COOKIES_DB := p\<rparr>)"
    using assms Some by (simp add: locate_cookies_db_def)
  then have c: "COOKIES_DB (snd (get_unique_sites w)) = p"
    using read_sites_COOKIES_DB [of "w\<lparr>COOKIES_DB := p\<rparr>"]
    by (cases "read_sites (w\<lparr>COOKIES_DB := p\<rparr>)")
       (auto simp: get_unique_sites_def split: sum.splits)
  show ?thesis
    using i g c by blast
qed

theorem fallback_probe_witness:
  "\<not> exists_file old_layout_world (COOKIES_DB old_layout_world) \<and>
   exists_file old_layout_world (default_paths old_layout_world ! 0) \<and>
   COOKIES_DB (snd (get_unique_sites old_layout_world)) = default_paths old_layout_world ! 0 \<and>
   fst (get_unique_sites old_layout_world) = Inr [''a.com'']"
proof -
  have h: "\<not> exists_file old_layout_world (COOKIES_DB old_layout_world)"
    by code_simp
  have e: "exists_file old_layout_world (default_paths old_layout_world ! 0)"
    by code_simp
  have r: "fst (get_unique_sites old_layout_world) = Inr [''a.com'']"
    by code_simp
  have l: "default_paths old_layout_world ! 0 \<in> set (default_paths old_layout_world)"
    by (simp add: default_paths_def)
  from fallback_probe [OF h] e l
  have "COOKIES_DB (snd (get_unique_sites old_layout_world)) = default_paths old_layout_world ! 0"
    by (metis not_gr_zero)
  with h e r show ?thesis by simp
qed

text \<open>With no cookie store anywhere, the message of the error contains none of the
  three candidate paths.\<close>

theorem not_found_names_no_candidate_counterexample:
  "fst (get_unique_sites empty_world) =
     Inl (PyExn FileNotFoundError
            (''Cookies DB not found'' @ [CHR 0x0A] @
             ''Ensure Chrome is closed and path is correct.'')) \<and>
   list_all (\<lambda>p. \<not> py_in (path_str p)
                    (''Cookies DB not found'' @ [CHR 0x0A] @
                     ''Ensure Chrome is closed and path is correct.''))
     (default_paths empty_world)"
  by code_simp

lemma scan_result:
  assumes "locate_cookies_db w = Inr w1"
  shows "get_unique_sites w =
     (case copy2 (cookie_files w1 (COOKIES_DB w1)) of
        Inl e \<Rightarrow> (Inl (scan_error e), w1\<lparr>temp_files := temp_files w1 + 1\<rparr>)
      | Inr (Faulty e) \<Rightarrow> (Inl (scan_error e), w1\<lparr>temp_files := temp_files w1 + 1\<rparr>)
      | Inr (Database None) \<Rightarrow>
          (Inl (PyExn Exception ''Failed to read cookies: Cookies table not found in database''),
           w1)
      | Inr (Database (Some rows)) \<Rightarrow>
          (Inr (sort (collect_sites (select_host_keys rows) [])), w1))"
  by (simp add: get_unique_sites_def assms read_sites_def scan_error_def Let_def
      split: sum.splits store.splits option.splits)

lemma sort_example: "sort [''a.com'', ''B.com''] = [''B.com'', ''a.com'']"
  by code_simp

lemma lstrip_dot_examples:
  "lstrip_dot ''a.com'' = ''a.com''" "lstrip_dot ''.a.com'' = ''a.com''"
  "lstrip_dot ''B.com'' = ''B.com''"
  by (simp_all add: lstrip_dot_def)

text \<open>
  C3, as the code has it. On a cookie store with a \<open>cookies\<close> table the scan returns
  the sorted list, without duplicates, of the non-empty host keys with all their leading
  dots stripped, leaving out what becomes empty; for the host keys \<open>a.com\<close>,
  \<open>.a.com\<close> and \<open>B.com\<close> it returns \<open>B.com\<close>, \<open>a.com\<close>.
\<close>

theorem inventory_sorted_distinct:
  assumes "cookie_files w (COOKIES_DB w) = File locked (Database (Some rows))"
  shows "(\<exists>sites. get_unique_sites w = (Inr sites, w) \<and> sorted sites \<and> distinct sites \<and>
            set sites = lstrip_dot ` {h. Some h \<in> host_key ` set rows \<and> h \<noteq> []} - {[]}) \<and>
         (map host_key rows = [Some ''a.com'', Some ''.a.com'', Some ''B.com''] \<longrightarrow>
            fst (get_unique_sites w) = Inr [''B.com'', ''a.com''])"
proof -
  have loc: "locate_cookies_db w = Inr w"
    by (rule locate_exists) (simp add: exists_file_def assms)
  have g: "get_unique_sites w = (Inr (sort (collect_sites (select_host_keys rows) [])), w)"
    by (simp add: scan_result [OF loc] assms)
  have s: "set (sort (collect_sites (select_host_keys rows) [])) =
      lstrip_dot ` {h. Some h \<in> host_key ` set rows \<and> h \<noteq> []} - {[]}"
    by (simp add: set_collect_sites set_select_host_keys)
  have d: "distinct (sort (collect_sites (select_host_keys rows) []))"
    by (simp add: distinct_collect_sites)
  have ex: "fst (get_unique_sites w) = Inr [''B.com'', ''a.com'']"
    if "map host_key rows = [Some ''a.com'', Some ''.a.com'', Some ''B.com'']"
  proof -
    from that obtain r1 r2 r3 where rows: "rows = [r1, r2, r3]"
      and k: "host_key r1 = Some ''a.com''" "host_key r2 = Some ''.a.com''"
        "host_key r3 = Some ''B.com''"
      by (auto simp: map_eq_Cons_conv)
    have "select_host_keys rows = [''a.com'', ''.a.com'', ''B.com'']"
      by (simp add: select_host_keys_def rows k)
    then have "collect_sites (select_host_keys rows) [] = [''a.com'', ''B.com'']"
      by (simp add: lstrip_dot_examples)
    then show ?thesis by (simp add: g sort_example)
  qed
  show ?thesis
    using g s d ex by simp
qed

theorem inventory_sorted_distinct_witness:
  "fst (get_unique_sites (cookie_world [''a.com'', ''.a.com'', ''B.com''])) =
     Inr [''B.com'', ''a.com''] \<and>
   snd (get_unique_sites (cookie_world [''a.com'', ''.a.com'', ''B.com''])) =
     cookie_world [''a.com'', ''.a.com'', ''B.com'']"
proof -
  let ?w = "cookie_world [''a.com'', ''.a.com'', ''B.com'']"
  have h: "cookie_files ?w (COOKIES_DB ?w) =
      File False (Database (Some (map row [''a.com'', ''.a.com'', ''B.com''])))"
    by (simp add: cookie_world_def empty_world_def)
  have k: "map host_key (map row [''a.com'', ''.a.com'', ''B.com'']) =
      [Some ''a.com'', Some ''.a.com'', Some ''B.com'']"
    by (simp add: row_def)
  from inventory_sorted_distinct [OF h]
  have i: "map host_key (map row [''a.com'', ''.a.com'', ''B.com'']) =
        [Some ''a.com'', Some ''.a.com'', Some ''B.com''] \<longrightarrow>
      fst (get_unique_sites ?w) = Inr [''B.com'', ''a.com'']"
    by (rule conjunct2)
  from i k have r: "fst (get_unique_sites ?w) = Inr [''B.com'', ''a.com'']"
    by (rule mp)
  from inventory_sorted_distinct [OF h] obtain sites where "get_unique_sites ?w = (Inr sites, ?w)"
    by blast
  then have "snd (get_unique_sites ?w) = ?w"
    by (simp only: snd_conv)
  with r show ?thesis
    by (rule conjI)
qed

text \<open>The host key \<open>..a.com\<close> is listed as \<open>a.com\<close>; stripping a single dot would
  list \<open>.a.com\<close>.\<close>

theorem strips_every_leading_dot_counterexample:
  "fst (get_unique_sites (cookie_world [''..a.com''])) = Inr [''a.com''] \<and>
   spec_list_sites [''..a.com''] = [''.a.com'']"
  by code_simp

text \<open>The scan reads a copy, so it does not see the lock of the store.\<close>

lemma scan_ignores_lock:
  assumes "cookie_files w (COOKIES_DB w) = File locked db"
  shows "fst (get_unique_sites w) =
     fst (get_unique_sites (w\<lparr>cookie_files := (cookie_files w)(COOKIES_DB w := File False db)\<rparr>))"
proof -
  let ?w' = "w\<lparr>cookie_files := (cookie_files w)(COOKIES_DB w := File False db)\<rparr>"
  have "locate_cookies_db w = Inr w"
    by (rule locate_exists) (simp add: exists_file_def assms)
  moreover have "locate_cookies_db ?w' = Inr ?w'"
    by (rule locate_exists) (simp add: exists_file_def)
  ultimately show ?thesis
    by (simp add: scan_result assms split: store.splits option.splits)
qed

text \<open>Whatever the body of the scan raises, the scan raises a plain \<open>Exception\<close>.\<close>

lemma scan_error_class: "cls (scan_error e) = Exception"
  by (simp add: scan_error_def)


text \<open>The temporary copy is removed when the store is a database, with or without the
  \<open>cookies\<close> table, and is left behind on every other path.\<close>

lemma temp_files_after_scan:
  assumes "locate_cookies_db w = Inr w1"
  shows "temp_files (snd (get_unique_sites w)) =
     (case copy2 (cookie_files w1 (COOKIES_DB w1)) of
        Inr (Database t) \<Rightarrow> temp_files w
      | _ \<Rightarrow> temp_files w + 1)"
proof -
  have "temp_files w1 = temp_files w"
    using assms by (auto simp: locate_cookies_db_def split: if_splits option.splits)
  then show ?thesis
    by (simp add: scan_result [OF assms] split: sum.splits store.splits option.splits)
qed

text \<open>
  C2 at a cookie store that is not a database: the scan raises and one temporary file
  is left.
\<close>

theorem temp_copy_left_on_error:
  "fst (get_unique_sites corrupt_world) =
     Inl (PyExn Exception ''Failed to read cookies: file is not a database'') \<and>
   temp_files corrupt_world = 0 \<and>
   temp_files (snd (get_unique_sites corrupt_world)) = 1"
  by code_simp

subsection \<open>The backup\<close>

lemma str_of_nat_1: "str_of_nat (Suc 0) = ''1''"
  by code_simp

lemma create_backup_cases:
  "create_backup w =
     (let backup_dir = ''backup_'' @ clock_name w;
          old = (case backups w backup_dir of
                   Some b \<Rightarrow> b
                 | None \<Rightarrow> \<lparr>copied = [], manifest = None\<rparr>);
          r = copy_files (io_fails w) (files_to_backup w) (copied old) 0;
          b1 = old\<lparr>copied := fst r\<rparr>
      in if io_fails w Mkdir then ((None, 0), w)
         else if snd r = None \<or> io_fails w WriteManifest
         then ((None, 0), w\<lparr>backups := (backups w)(backup_dir \<mapsto> b1)\<rparr>)
         else ((Some backup_dir, the (snd r)),
               w\<lparr>backups := (backups w)(backup_dir \<mapsto>
                    b1\<lparr>manifest := Some (manifest_lines w (the (snd r)))\<rparr>)\<rparr>))"
  by (auto simp: create_backup_def Let_def split: prod.splits option.splits)

text \<open>
  C9. With only the cookie store present (no local storage, no session storage) and no
  step raising, \<open>create_backup\<close> returns the count 1 and the manifest it writes has the
  line \<open>Files backed up: 1\<close>. Whenever the call returns a backup directory, the
  manifest in it states the count returned; when it returns no directory the count is 0
  and the call has written no manifest.
\<close>

theorem backup_manifest_truth:
  "(exists_file w (COOKIES_DB w) \<and> storage w LOCAL_STORAGE_PATH = Absent \<and>
    storage w SESSION_STORAGE_PATH = Absent \<and> \<not> io_fails w Mkdir \<and>
    \<not> io_fails w (Copy (name_of (COOKIES_DB w))) \<and> \<not> io_fails w WriteManifest \<longrightarrow>
      fst (create_backup w) = (Some (''backup_'' @ clock_name w), 1) \<and>
      (\<exists>b m. backups (snd (create_backup w)) (''backup_'' @ clock_name w) = Some b \<and>
         manifest b = Some m \<and> m ! 2 = ''Files backed up: 1'')) \<and>
   (\<forall>d n. fst (create_backup w) = (Some d, n) \<longrightarrow>
      (\<exists>b m. backups (snd (create_backup w)) d = Some b \<and> manifest b = Some m \<and>
         m ! 2 = ''Files backed up: '' @ str_of_nat n)) \<and>
   (\<forall>n. fst (create_backup w) = (None, n) \<longrightarrow>
      n = 0 \<and>
      (\<forall>d. Option.bind (backups (snd (create_backup w)) d) manifest =
           Option.bind (backups w d) manifest))"
proof (intro conjI impI allI)
  assume a: "exists_file w (COOKIES_DB w) \<and> storage w LOCAL_STORAGE_PATH = Absent \<and>
    storage w SESSION_STORAGE_PATH = Absent \<and> \<not> io_fails w Mkdir \<and>
    \<not> io_fails w (Copy (name_of (COOKIES_DB w))) \<and> \<not> io_fails w WriteManifest"
  then have c: "copy_files (io_fails w) (files_to_backup w) names 0 =
      (names @ [name_of (COOKIES_DB w)], Some 1)" for names
    by (cases "cookie_files w (COOKIES_DB w)")
       (simp_all add: files_to_backup_def exists_file_def)
  show "fst (create_backup w) = (Some (''backup_'' @ clock_name w), 1)"
    using a by (simp add: create_backup_cases Let_def c)
  show "\<exists>b m. backups (snd (create_backup w)) (''backup_'' @ clock_name w) = Some b \<and>
         manifest b = Some m \<and> m ! 2 = ''Files backed up: 1''"
    using a by (simp add: create_backup_cases Let_def c manifest_lines_def str_of_nat_1)
next
  fix d n
  assume "fst (create_backup w) = (Some d, n)"
  then show "\<exists>b m. backups (snd (create_backup w)) d = Some b \<and> manifest b = Some m \<and>
         m ! 2 = ''Files backed up: '' @ str_of_nat n"
    by (auto simp: create_backup_cases Let_def manifest_lines_def split: if_splits)
next
  fix n
  assume "fst (create_backup w) = (None, n)"
  then show "n = 0"
    by (auto simp: create_backup_cases Let_def split: if_splits)
next
  fix n d
  assume "fst (create_backup w) = (None, n)"
  then show "Option.bind (backups (snd (create_backup w)) d) manifest =
           Option.bind (backups w d) manifest"
    by (auto simp: create_backup_cases Let_def split: if_splits option.splits)
qed

theorem backup_manifest_truth_witness:
  "fst (create_backup (cookie_world [''a.com''])) = (Some ''backup_2025-01-01_00-00-00'', 1) \<and>
   Option.bind (backups (snd (create_backup (cookie_world [''a.com'']))) ''backup_2025-01-01_00-00-00'')
     manifest =
     Some [''Backup created: 2025-01-01 00:00:00'',
           ''Original profile: '' @ path_str (CHROME_PROFILE empty_world),
           ''Files backed up: 1'',
           ''To restore: Copy these files back to their original locations'',
           ''WARNING: Chrome must be completely closed during restoration'']"
proof -
  let ?w = "cookie_world [''a.com'']"
  have h: "exists_file ?w (COOKIES_DB ?w) \<and> storage ?w LOCAL_STORAGE_PATH = Absent \<and>
    storage ?w SESSION_STORAGE_PATH = Absent \<and> \<not> io_fails ?w Mkdir \<and>
    \<not> io_fails ?w (Copy (name_of (COOKIES_DB ?w))) \<and> \<not> io_fails ?w WriteManifest"
    by (simp add: cookie_world_def empty_world_def exists_file_def)
  have n: "''backup_'' @ clock_name ?w = ''backup_2025-01-01_00-00-00''"
    by (simp add: cookie_world_def empty_world_def)
  from backup_manifest_truth [of ?w] h
  have f: "fst (create_backup ?w) = (Some (''backup_'' @ clock_name ?w), 1)"
    by blast
  have m: "Option.bind (backups (snd (create_backup ?w)) ''backup_2025-01-01_00-00-00'') manifest =
     Some [''Backup created: 2025-01-01 00:00:00'',
           ''Original profile: '' @ path_str (CHROME_PROFILE empty_world),
           ''Files backed up: 1'',
           ''To restore: Copy these files back to their original locations'',
           ''WARNING: Chrome must be completely closed during restoration'']"
    by code_simp
  from f n m show ?thesis by simp
qed

end
